theory Spec2Isabelle
  imports Main
begin

section \<open>Errors\<close>

text \<open>
  A Go \<^verbatim>\<open>error\<close> value is either nil (\<open>None\<close>) or an error (\<open>Some e\<close>).
  \<open>JoinError\<close> is the value \<^verbatim>\<open>errors.Join\<close> builds: it keeps the list of the non-nil
  errors it was given. The four \<open>Err...\<close> constants are the sentinel errors of the graph
  library; \<open>Wrapped prefix e\<close> is \<^verbatim>\<open>fmt.Errorf("<prefix>: %w", e)\<close>.
\<close>

datatype error =
    Err string
  | ErrVertexNotFound
  | ErrVertexAlreadyExists
  | ErrEdgeAlreadyExists
  | ErrEdgeCreatesCycle
  | Wrapped string error
  | JoinError "error list"

text \<open>\<^verbatim>\<open>errors.Join(errs...)\<close>: nil when every argument is nil, else the non-nil ones.\<close>

definition errors_Join :: "error option list \<Rightarrow> error option" where
  "errors_Join errs =
     (case [e. Some e \<leftarrow> errs] of
        [] \<Rightarrow> None
      | es \<Rightarrow> Some (JoinError es))"

text \<open>The individual failures an error carries (what \<^verbatim>\<open>errors.Is\<close> walks through).\<close>

fun causes :: "error \<Rightarrow> error list" where
  "causes (JoinError es) = concat (map causes es)"
| "causes (Wrapped msg e) = Wrapped msg e # causes e"
| "causes e = [e]"

definition causes_of :: "error option \<Rightarrow> error list" where
  "causes_of r = (case r of None \<Rightarrow> [] | Some e \<Rightarrow> causes e)"

text \<open>\<^verbatim>\<open>strings.Join(elems, sep)\<close>.\<close>

fun strings_Join :: "string list \<Rightarrow> string \<Rightarrow> string" where
  "strings_Join [] sep = []"
| "strings_Join [s] sep = s"
| "strings_Join (s # t # ts) sep = s @ sep @ strings_Join (t # ts) sep"

text \<open>
  The text of an error (its \<^verbatim>\<open>Error()\<close> method). A wrapped error prints its prefix, a
  colon and the error it wraps; a joined error prints its errors on a line each.
\<close>

fun Error :: "error \<Rightarrow> string" where
  "Error (Err msg) = msg"
| "Error ErrVertexNotFound = ''vertex not found''"
| "Error ErrVertexAlreadyExists = ''vertex already exists''"
| "Error ErrEdgeAlreadyExists = ''edge already exists''"
| "Error ErrEdgeCreatesCycle = ''edge would create a cycle''"
| "Error (Wrapped prefix e) = prefix @ '': '' @ Error e"
| "Error (JoinError es) = strings_Join (map Error es) [CHR 0x0A]"

text \<open>
  A Go function either returns or panics (here: index out of range on an empty slice).
\<close>

datatype 'a outcome = Return 'a | Panic

section \<open>The application model (the fields the network operations read)\<close>

text \<open>
  The value of a compose extension key as the YAML loader leaves it: a string, a null, or
  anything else (a number, a list, a mapping).
\<close>

datatype ext_value = ExtString string | ExtNull | ExtOther

text \<open>
  \<^verbatim>\<open>mapstructure.Decode(v, &target)\<close> for a string target: a string is stored, a null
  stores nothing and is no error, any other value is an error and stores nothing.
  The result is the error and the target afterwards.
\<close>

fun mapstructure_Decode :: "ext_value \<Rightarrow> string \<Rightarrow> error option \<times> string" where
  "mapstructure_Decode (ExtString s) target = (None, s)"
| "mapstructure_Decode ExtNull target = (None, target)"
| "mapstructure_Decode ExtOther target = (Some (Err ''expected type string''), target)"

text \<open>
  \<^verbatim>\<open>Extensions.Get(name, &target)\<close> of compose-go: \<open>(ok, err)\<close> and the target afterwards.
\<close>

definition Extensions_Get ::
  "(string \<rightharpoonup> ext_value) \<Rightarrow> string \<Rightarrow> string \<Rightarrow> (bool \<times> error option) \<times> string" where
  "Extensions_Get e name target =
     (case e name of
        Some v \<Rightarrow> (case mapstructure_Decode v target of (err, target') \<Rightarrow> ((True, err), target'))
      | None \<Rightarrow> ((False, None), target))"

record NetworkConfig =
  Name :: string
  External :: bool
  Extensions :: "string \<rightharpoonup> ext_value"

text \<open>
  \<open>Networks\<close> is a Go map; its entries are held in the order in which the \<^verbatim>\<open>range\<close>
  loop of one run yields them, which Go leaves unspecified.
\<close>

record Project =
  Networks :: "(string \<times> NetworkConfig) list"

record NetworkDefaults =
  Type :: string
  Uplink :: string

record Service =
  DependsOn :: "string list"

section \<open>The remote control plane\<close>

type_synonym InstanceServer = nat

text \<open>One element of what \<^verbatim>\<open>ParseServers\<close> returns: the client and the remote-side name.\<close>

record resource =
  server :: InstanceServer
  name :: string

text \<open>\<^verbatim>\<open>api.NetworksPost\<close>: the fields \<^verbatim>\<open>CreateNetworks\<close> sets.\<close>

record NetworksPost =
  post_Name :: string
  post_Type :: string
  post_Config :: "string \<rightharpoonup> string"

text \<open>The calls that leave the process, in the order they are made.\<close>

datatype event =
    ParseServersCall string
  | CreateNetworkCall InstanceServer NetworksPost
  | DeleteNetworkCall InstanceServer string

text \<open>
  The collaborators that are not part of the two functions: endpoint resolution
  (\<^verbatim>\<open>c.ParseServers\<close>, defined outside \<^verbatim>\<open>network.go\<close>) and the two client verbs.
  What each answers may depend on every call made before it (the first argument), so a
  stateful control plane is covered.
\<close>

record remote =
  ParseServers :: "event list \<Rightarrow> string \<Rightarrow> resource list \<times> error option"
  CreateNetwork :: "event list \<Rightarrow> InstanceServer \<Rightarrow> NetworksPost \<Rightarrow> error option"
  DeleteNetwork :: "event list \<Rightarrow> InstanceServer \<Rightarrow> string \<Rightarrow> error option"

section \<open>network.go\<close>

text \<open>Lines 18 to 27: the type and the uplink a network is created with.\<close>

definition nettype_of :: "NetworkDefaults \<Rightarrow> NetworkConfig \<Rightarrow> string" where
  "nettype_of d network =
     (case Extensions_Get (Extensions network) ''x-incus-type'' '''' of
        ((ok, err), nettype) \<Rightarrow> if \<not> ok \<or> err \<noteq> None then Type d else nettype)"

definition uplink_of :: "NetworkDefaults \<Rightarrow> NetworkConfig \<Rightarrow> string" where
  "uplink_of d network =
     (case Extensions_Get (Extensions network) ''x-incus-uplink'' '''' of
        ((ok, err), uplink) \<Rightarrow> if \<not> ok \<or> err \<noteq> None then Uplink d else uplink)"

text \<open>Lines 36 to 44: the request.\<close>

definition apiNetwork_of :: "NetworkDefaults \<Rightarrow> NetworkConfig \<Rightarrow> NetworksPost" where
  "apiNetwork_of d network =
     (let nettype = nettype_of d network;
          uplink = uplink_of d network
      in \<lparr>post_Name = Name network,
          post_Type = nettype,
          post_Config = (if nettype = ''ovn'' then [''network'' \<mapsto> uplink] else Map.empty)\<rparr>)"

text \<open>
  The loop of \<^verbatim>\<open>CreateNetworks\<close> over the entries still to visit. \<open>tr\<close> is the list of
  calls made so far; the result is what the function returns (or that it panicked) and the
  calls made. Logging is left out.
\<close>

fun CreateNetworks_loop ::
  "remote \<Rightarrow> NetworkDefaults \<Rightarrow> (string \<times> NetworkConfig) list \<Rightarrow> event list
     \<Rightarrow> error option outcome \<times> event list" where
  "CreateNetworks_loop r d [] tr = (Return None, tr)"
| "CreateNetworks_loop r d ((key, network) # rest) tr =
     (if External network then CreateNetworks_loop r d rest tr
      else
        let apiNetwork = apiNetwork_of d network;
            (resources, err) = ParseServers r tr (Name network);
            tr1 = tr @ [ParseServersCall (Name network)]
        in if err \<noteq> None then (Return err, tr1)
           else (case resources of
                   [] \<Rightarrow> (Panic, tr1)
                 | resource # _ \<Rightarrow>
                     let err2 = CreateNetwork r tr1 (server resource) apiNetwork;
                         tr2 = tr1 @ [CreateNetworkCall (server resource) apiNetwork]
                     in if err2 \<noteq> None then (Return err2, tr2)
                        else CreateNetworks_loop r d rest tr2))"

text \<open>
  The loop of \<^verbatim>\<open>DestroyNetworks\<close>; \<open>funcError\<close> is the accumulator of the same name.
\<close>

fun DestroyNetworks_loop ::
  "remote \<Rightarrow> (string \<times> NetworkConfig) list \<Rightarrow> error option \<Rightarrow> event list
     \<Rightarrow> error option outcome \<times> event list" where
  "DestroyNetworks_loop r [] funcError tr = (Return funcError, tr)"
| "DestroyNetworks_loop r ((key, network) # rest) funcError tr =
     (if External network then DestroyNetworks_loop r rest funcError tr
      else
        let (resources, err) = ParseServers r tr (Name network);
            tr1 = tr @ [ParseServersCall (Name network)];
            funcError1 = (if err \<noteq> None then errors_Join [funcError, err] else funcError)
        in (case resources of
              [] \<Rightarrow> (Panic, tr1)
            | resource # _ \<Rightarrow>
                let err2 = DeleteNetwork r tr1 (server resource) (name resource);
                    tr2 = tr1 @ [DeleteNetworkCall (server resource) (name resource)];
                    funcError2 = (if err2 \<noteq> None then errors_Join [funcError1, err2]
                                  else funcError1)
                in DestroyNetworks_loop r rest funcError2 tr2))"

section \<open>The graph library\<close>

text \<open>
  The part of \<^verbatim>\<open>github.com/dominikbraun/graph\<close> that \<^verbatim>\<open>root.go\<close> calls, for a
  directed graph with string hashes. The library stores vertices and edges in Go maps,
  so a graph is its set of vertices and its set of edges. \<^verbatim>\<open>Acyclic()\<close> only records the
  trait; edges that close a cycle are refused only under \<^verbatim>\<open>PreventCycles()\<close>.
\<close>

record Traits =
  IsDirected :: bool
  IsAcyclic :: bool
  IsWeighted :: bool
  IsRooted :: bool
  PreventCycles :: bool

definition Directed :: "Traits \<Rightarrow> Traits" where
  "Directed t = t\<lparr>IsDirected := True\<rparr>"

definition Acyclic :: "Traits \<Rightarrow> Traits" where
  "Acyclic t = t\<lparr>IsAcyclic := True\<rparr>"

record graph =
  traits :: Traits
  vertices :: "string set"
  edges :: "(string \<times> string) set"

text \<open>\<^verbatim>\<open>graph.New(hash, options...)\<close>: the options are applied to the empty traits.\<close>

definition graph_New :: "(Traits \<Rightarrow> Traits) list \<Rightarrow> graph" where
  "graph_New options =
     \<lparr>traits = fold (\<lambda>option t. option t) options
                 \<lparr>IsDirected = False, IsAcyclic = False, IsWeighted = False,
                  IsRooted = False, PreventCycles = False\<rparr>,
      vertices = {},
      edges = {}\<rparr>"

definition AddVertex :: "graph \<Rightarrow> string \<Rightarrow> error option \<times> graph" where
  "AddVertex g v =
     (if v \<in> vertices g then (Some ErrVertexAlreadyExists, g)
      else (None, g\<lparr>vertices := insert v (vertices g)\<rparr>))"

text \<open>
  \<^verbatim>\<open>CreatesCycle(g, source, target)\<close>: the two are equal, or \<open>source\<close> is reachable from
  \<open>target\<close>.
\<close>

definition createsCycle :: "graph \<Rightarrow> string \<Rightarrow> string \<Rightarrow> bool" where
  "createsCycle g source target \<longleftrightarrow> source = target \<or> (target, source) \<in> (edges g)\<^sup>+"

text \<open>
  \<^verbatim>\<open>AddEdge(sourceHash, targetHash)\<close>. A missing vertex is reported as
  \<^verbatim>\<open>fmt.Errorf("source vertex %v: %w", sourceHash, err)\<close>, respectively \<^verbatim>\<open>target vertex\<close>, so
  the error names the vertex.
\<close>

definition AddEdge :: "graph \<Rightarrow> string \<Rightarrow> string \<Rightarrow> error option \<times> graph" where
  "AddEdge g source target =
     (if source \<notin> vertices g then (Some (Wrapped (''source vertex '' @ source) ErrVertexNotFound), g)
      else if target \<notin> vertices g
        then (Some (Wrapped (''target vertex '' @ target) ErrVertexNotFound), g)
      else if (source, target) \<in> edges g then (Some ErrEdgeAlreadyExists, g)
      else if PreventCycles (traits g) \<and> createsCycle g source target
        then (Some ErrEdgeCreatesCycle, g)
      else (None, g\<lparr>edges := insert (source, target) (edges g)\<rparr>))"

section \<open>root.go\<close>

text \<open>
  \<^verbatim>\<open>application.Compose\<close> is declared outside the two files; the record holds the fields
  they read and write.
\<close>

record Compose =
  Services :: "string \<rightharpoonup> Service"
  ComposeProject :: Project
  Network :: NetworkDefaults
  Remote :: string
  Dag :: graph

text \<open>
  \<^verbatim>\<open>app.Services[name].DependsOn\<close>: indexing a Go map with a key it does not hold gives
  the zero value, whose list is empty.
\<close>

definition DependsOn_of :: "(string \<rightharpoonup> Service) \<Rightarrow> string \<Rightarrow> string list" where
  "DependsOn_of services key = (case services key of None \<Rightarrow> [] | Some s \<Rightarrow> DependsOn s)"

text \<open>
  Lines 159 to 167. \<open>ks1\<close> and \<open>ks2\<close> are the orders in which the two \<^verbatim>\<open>range\<close> loops
  yield the keys of \<^verbatim>\<open>app.Services\<close>. The error of each library call is dropped, as
  \<^verbatim>\<open>_ =\<close> does.
\<close>

definition build_Dag :: "(string \<rightharpoonup> Service) \<Rightarrow> string list \<Rightarrow> string list \<Rightarrow> graph" where
  "build_Dag services ks1 ks2 =
     (let g = graph_New [Directed, Acyclic];
          g = fold (\<lambda>name g. snd (AddVertex g name)) ks1 g;
          g = fold (\<lambda>name g. fold (\<lambda>dep g. snd (AddEdge g name dep))
                                   (DependsOn_of services name) g) ks2 g
      in g)"

text \<open>The values \<^verbatim>\<open>viper\<close> holds, after it has read its configuration, for the keys the function reads.\<close>

record Settings =
  network_type :: string
  network_uplink :: string
  remote_name :: string
  incus_project :: string

text \<open>\<^verbatim>\<open>user.User\<close> and \<^verbatim>\<open>cliconfig.Config\<close>: the fields the function reads and sets.\<close>

record User =
  HomeDir :: string

record Config =
  ConfigDir :: string
  CacheDir :: string
  ProjectOverride :: string

definition config_NewConfig :: "string \<Rightarrow> bool \<Rightarrow> Config" where
  "config_NewConfig configDir defaults =
     \<lparr>ConfigDir = configDir, CacheDir = [], ProjectOverride = []\<rparr>"

text \<open>
  What the function finds around it: the process environment and the file system, the
  standard path functions, and the collaborators it calls (\<^verbatim>\<open>user.Current\<close>,
  \<^verbatim>\<open>config.LoadConfig\<close>, the \<^verbatim>\<open>cwd\<close> flag read by \<^verbatim>\<open>configureLoader\<close>,
  \<^verbatim>\<open>loader.LoadProject\<close> and \<^verbatim>\<open>application.BuildDirect\<close>). The last two are code of
  this repository outside the two files; they are given the calls made to the control
  plane so far and return them with their own, if they make any.
\<close>

record Host =
  Getenv :: "string \<Rightarrow> string"
  PathExists :: "string \<Rightarrow> bool"
  user_Current :: "error + User"
  MkdirAll :: "string \<Rightarrow> error option"
  IsExist :: "error \<Rightarrow> bool"
  path_Join :: "string list \<Rightarrow> string"
  ExpandEnv :: "string \<Rightarrow> string"
  filepath_Dir :: "string \<Rightarrow> string"
  LoadConfig :: "string \<Rightarrow> error + Config"
  flag_cwd :: "error + string"
  LoadProject :: "string \<Rightarrow> event list \<Rightarrow> (error + Project) \<times> event list"
  BuildDirect :: "Project \<Rightarrow> Config \<Rightarrow> event list \<Rightarrow> (error + Compose) \<times> event list"

text \<open>Lines 68 to 83: the configuration directory, or the error of \<^verbatim>\<open>user.Current\<close>.\<close>

definition configDir_of :: "Host \<Rightarrow> error + string" where
  "configDir_of h =
     (if Getenv h ''INCUS_CONF'' \<noteq> [] then Inr (Getenv h ''INCUS_CONF'')
      else if Getenv h ''HOME'' \<noteq> [] \<and> PathExists h (Getenv h ''HOME'')
        then Inr (path_Join h [Getenv h ''HOME'', ''.config'', ''incus''])
      else (case user_Current h of
              Inl err \<Rightarrow> Inl err
            | Inr user \<Rightarrow>
                Inr (if PathExists h (HomeDir user)
                     then path_Join h [HomeDir user, ''.config'', ''incus''] else [])))"

text \<open>Lines 85 to 100: the cache path, or the error of \<^verbatim>\<open>user.Current\<close>.\<close>

definition cachePath_of :: "Host \<Rightarrow> error + string" where
  "cachePath_of h =
     (if Getenv h ''INCUS_CACHE'' \<noteq> [] then Inr (Getenv h ''INCUS_CACHE'')
      else if Getenv h ''HOME'' \<noteq> [] \<and> PathExists h (Getenv h ''HOME'')
        then Inr (path_Join h [Getenv h ''HOME'', ''.cache'', ''incus''])
      else (case user_Current h of
              Inl err \<Rightarrow> Inl err
            | Inr currentUser \<Rightarrow>
                Inr (if PathExists h (HomeDir currentUser)
                     then path_Join h [HomeDir currentUser, ''.cache'', ''incus''] else [])))"

text \<open>
  Lines 68 to 152: everything before the graph is built. \<open>forceLocal\<close> is the value of the
  package variable when the function starts and \<open>tr\<close> the calls made to the control plane
  so far. The result is the error returned, a panic (\<^verbatim>\<open>configureLoader\<close> panics when the
  flag cannot be read), or the application \<^verbatim>\<open>BuildDirect\<close> returned. Logging and the
  reading of the \<^verbatim>\<open>viper\<close> configuration file, whose error is only logged, are left out.
\<close>

definition load_application ::
  "Host \<Rightarrow> Settings \<Rightarrow> bool \<Rightarrow> event list \<Rightarrow> (error + Compose) outcome \<times> event list" where
  "load_application h viper forceLocal tr =
     (case configDir_of h of
        Inl err \<Rightarrow> (Return (Inl err), tr)
      | Inr configDir \<Rightarrow>
     (case cachePath_of h of
        Inl err \<Rightarrow> (Return (Inl err), tr)
      | Inr cachePath0 \<Rightarrow>
     (let cachePath =
            (if cachePath0 \<noteq> [] then
               (case MkdirAll h cachePath0 of
                  Some err \<Rightarrow> if \<not> IsExist h err then [] else cachePath0
                | None \<Rightarrow> cachePath0)
             else cachePath0);
          forceLocal = (if configDir = [] then True else forceLocal);
          confPath = ExpandEnv h (path_Join h [configDir, ''config.yml''])
      in
     (case (if forceLocal then Inr (config_NewConfig [] True)
            else if PathExists h confPath then LoadConfig h confPath
            else Inr (config_NewConfig (filepath_Dir h confPath) True)) of
        Inl err \<Rightarrow> (Return (Inl err), tr)
      | Inr conf0 \<Rightarrow>
     (let conf = conf0\<lparr>CacheDir := cachePath, ProjectOverride := incus_project viper\<rparr>
      in
     (case flag_cwd h of
        Inl err \<Rightarrow> (Panic, tr)
      | Inr WorkingDir \<Rightarrow>
     (case LoadProject h WorkingDir tr of
        (Inl err, tr1) \<Rightarrow> (Return (Inl err), tr1)
      | (Inr project, tr1) \<Rightarrow>
     (case BuildDirect h project conf tr1 of
        (Inl err, tr2) \<Rightarrow> (Return (Inl err), tr2)
      | (Inr app, tr2) \<Rightarrow> (Return (Inr app), tr2)))))))))"

text \<open>
  \<^verbatim>\<open>PersistentPreRunE\<close>, lines 66 to 176: the part above, then lines 154 to 175 on the
  application it produced. The result is the error returned (or a panic), or the
  application the later commands find in \<^verbatim>\<open>app\<close>, and the calls made to the control
  plane when the function ends.
\<close>

definition PersistentPreRunE ::
  "Host \<Rightarrow> Settings \<Rightarrow> bool \<Rightarrow> string list \<Rightarrow> string list \<Rightarrow> event list
     \<Rightarrow> (error + Compose) outcome \<times> event list" where
  "PersistentPreRunE h viper forceLocal ks1 ks2 tr =
     (case load_application h viper forceLocal tr of
        (Return (Inr app), tr') \<Rightarrow>
          (Return (Inr (app\<lparr>Network := \<lparr>Type = network_type viper, Uplink = network_uplink viper\<rparr>,
                            Remote := remote_name viper,
                            Dag := build_Dag (Services app) ks1 ks2\<rparr>)), tr')
      | (Return (Inl err), tr') \<Rightarrow> (Return (Inl err), tr')
      | (Panic, tr') \<Rightarrow> (Panic, tr'))"

section \<open>network.go, the two operations\<close>

definition CreateNetworks :: "remote \<Rightarrow> Compose \<Rightarrow> event list \<Rightarrow> error option outcome \<times> event list" where
  "CreateNetworks r c tr = CreateNetworks_loop r (Network c) (Networks (ComposeProject c)) tr"

definition DestroyNetworks :: "remote \<Rightarrow> Compose \<Rightarrow> event list \<Rightarrow> error option outcome \<times> event list" where
  "DestroyNetworks r c tr = DestroyNetworks_loop r (Networks (ComposeProject c)) None tr"

section \<open>Observing a run\<close>

text \<open>The networks a batch owns: the entries not marked external, in iteration order.\<close>

definition owned :: "(string \<times> NetworkConfig) list \<Rightarrow> (string \<times> NetworkConfig) list" where
  "owned nets = filter (\<lambda>(key, network). \<not> External network) nets"

definition with_networks :: "Compose \<Rightarrow> (string \<times> NetworkConfig) list \<Rightarrow> Compose" where
  "with_networks c nets = c\<lparr>ComposeProject := (ComposeProject c)\<lparr>Networks := nets\<rparr>\<rparr>"

text \<open>The requests of the create-network calls of a trace, the names resolved, the names deleted.\<close>

fun created :: "event list \<Rightarrow> NetworksPost list" where
  "created [] = []"
| "created (CreateNetworkCall s p # evs) = p # created evs"
| "created (_ # evs) = created evs"

fun resolved :: "event list \<Rightarrow> string list" where
  "resolved [] = []"
| "resolved (ParseServersCall n # evs) = n # resolved evs"
| "resolved (_ # evs) = resolved evs"

fun deleted :: "event list \<Rightarrow> string list" where
  "deleted [] = []"
| "deleted (DeleteNetworkCall s n # evs) = n # deleted evs"
| "deleted (_ # evs) = deleted evs"

text \<open>\<open>ks\<close> is an order in which a \<^verbatim>\<open>range\<close> loop may yield the keys of the map \<open>m\<close>.\<close>

definition range_keys :: "('k \<rightharpoonup> 'v) \<Rightarrow> 'k list \<Rightarrow> bool" where
  "range_keys m ks \<longleftrightarrow> distinct ks \<and> set ks = dom m"

text \<open>The pairs service, dependency that the service set declares.\<close>

definition declared_edges :: "(string \<rightharpoonup> Service) \<Rightarrow> (string \<times> string) set" where
  "declared_edges services =
     {(s, dep). s \<in> dom services \<and> dep \<in> set (DependsOn_of services s)}"

text \<open>The traits \<^verbatim>\<open>graph.New(graph.StringHash, graph.Directed(), graph.Acyclic())\<close> sets.\<close>

definition root_traits :: Traits where
  "root_traits = \<lparr>IsDirected = True, IsAcyclic = True, IsWeighted = False,
                  IsRooted = False, PreventCycles = False\<rparr>"

section \<open>Scenarios\<close>

definition net_a :: NetworkConfig where
  "net_a = \<lparr>Name = ''net-a'', External = False,
            Extensions = [''x-incus-type'' \<mapsto> ExtString ''bridge'']\<rparr>"

definition net_b :: NetworkConfig where
  "net_b = \<lparr>Name = ''net-b'', External = False,
            Extensions = [''x-incus-type'' \<mapsto> ExtString ''ovn'',
                          ''x-incus-uplink'' \<mapsto> ExtString ''up0'']\<rparr>"

definition net_plain :: NetworkConfig where
  "net_plain = \<lparr>Name = ''net-c'', External = False, Extensions = Map.empty\<rparr>"

definition net_shared :: NetworkConfig where
  "net_shared = \<lparr>Name = ''shared'', External = True, Extensions = Map.empty\<rparr>"

definition app_of :: "(string \<rightharpoonup> Service) \<Rightarrow> (string \<times> NetworkConfig) list \<Rightarrow> Compose" where
  "app_of services nets =
     \<lparr>Services = services,
      ComposeProject = \<lparr>Networks = nets\<rparr>,
      Network = \<lparr>Type = ''bridge'', Uplink = ''uplink0''\<rparr>,
      Remote = [],
      Dag = graph_New []\<rparr>"

text \<open>A control plane on which everything succeeds: one endpoint per name.\<close>

definition remote_ok :: remote where
  "remote_ok =
     \<lparr>ParseServers = (\<lambda>h n. ([\<lparr>server = 0, name = n\<rparr>], None)),
      CreateNetwork = (\<lambda>h s p. None),
      DeleteNetwork = (\<lambda>h s n. None)\<rparr>"

text \<open>One on which creating and deleting \<^verbatim>\<open>net-a\<close> fails.\<close>

definition remote_refuses_a :: remote where
  "remote_refuses_a =
     \<lparr>ParseServers = (\<lambda>h n. ([\<lparr>server = 0, name = n\<rparr>], None)),
      CreateNetwork = (\<lambda>h s p. if post_Name p = ''net-a'' then Some (Err ''create net-a'') else None),
      DeleteNetwork = (\<lambda>h s n. if n = ''net-a'' then Some (Err ''delete net-a'') else None)\<rparr>"

text \<open>One on which \<^verbatim>\<open>net-a\<close> resolves to no endpoint: \<^verbatim>\<open>ParseServers\<close> returns nil and an error.\<close>

definition remote_unresolved_a :: remote where
  "remote_unresolved_a =
     \<lparr>ParseServers = (\<lambda>h n. if n = ''net-a'' then ([], Some (Err ''resolve net-a''))
                               else ([\<lparr>server = 0, name = n\<rparr>], None)),
      CreateNetwork = (\<lambda>h s p. None),
      DeleteNetwork = (\<lambda>h s n. None)\<rparr>"

text \<open>One on which \<^verbatim>\<open>net-a\<close> resolves to an empty list without an error.\<close>

definition remote_empty_a :: remote where
  "remote_empty_a =
     \<lparr>ParseServers = (\<lambda>h n. if n = ''net-a'' then ([], None)
                               else ([\<lparr>server = 0, name = n\<rparr>], None)),
      CreateNetwork = (\<lambda>h s p. None),
      DeleteNetwork = (\<lambda>h s n. None)\<rparr>"

definition services_cycle :: "string \<rightharpoonup> Service" where
  "services_cycle = [''A'' \<mapsto> \<lparr>DependsOn = [''B'']\<rparr>, ''B'' \<mapsto> \<lparr>DependsOn = [''A'']\<rparr>]"

definition services_ghost :: "string \<rightharpoonup> Service" where
  "services_ghost = [''x'' \<mapsto> \<lparr>DependsOn = [''ghost'']\<rparr>]"

definition services_chain :: "string \<rightharpoonup> Service" where
  "services_chain = [''db'' \<mapsto> \<lparr>DependsOn = []\<rparr>, ''api'' \<mapsto> \<lparr>DependsOn = [''db'']\<rparr>,
                     ''web'' \<mapsto> \<lparr>DependsOn = [''api'']\<rparr>]"

definition settings0 :: Settings where
  "settings0 = \<lparr>network_type = ''bridge'', network_uplink = [], remote_name = [],
                incus_project = []\<rparr>"

text \<open>
  A host with a home directory and no configuration file, on which the project loads
  (no networks) and \<^verbatim>\<open>BuildDirect\<close> returns the application with the given services.
\<close>

definition host_of :: "(string \<rightharpoonup> Service) \<Rightarrow> Host" where
  "host_of services =
     \<lparr>Getenv = (\<lambda>v. if v = ''HOME'' then ''/home/u'' else []),
      PathExists = (\<lambda>p. p = ''/home/u''),
      user_Current = Inr \<lparr>HomeDir = ''/home/u''\<rparr>,
      MkdirAll = (\<lambda>p. None),
      IsExist = (\<lambda>e. False),
      path_Join = (\<lambda>elems. strings_Join (filter (\<lambda>e. e \<noteq> []) elems) ''/''),
      ExpandEnv = (\<lambda>p. p),
      filepath_Dir = (\<lambda>p. ''/home/u/.config/incus''),
      LoadConfig = (\<lambda>p. Inl (Err ''no configuration file'')),
      flag_cwd = Inr [],
      LoadProject = (\<lambda>dir tr. (Inr \<lparr>Networks = []\<rparr>, tr)),
      BuildDirect = (\<lambda>project conf tr. (Inr (app_of services (Networks project)), tr))\<rparr>"

text \<open>
  A control plane on which everything succeeds and the resolver returns a remote-side
  name that differs from the name it was given.
\<close>

definition remote_renaming :: remote where
  "remote_renaming =
     \<lparr>ParseServers = (\<lambda>h n. ([\<lparr>server = 0, name = ''r-'' @ n\<rparr>], None)),
      CreateNetwork = (\<lambda>h s p. None),
      DeleteNetwork = (\<lambda>h s n. None)\<rparr>"

section \<open>The trace and the external networks\<close>

lemma created_append: "created (xs @ ys) = created xs @ created ys"
  by (induction xs rule: created.induct) simp_all

lemma resolved_append: "resolved (xs @ ys) = resolved xs @ resolved ys"
  by (induction xs rule: resolved.induct) simp_all

lemma deleted_append: "deleted (xs @ ys) = deleted xs @ deleted ys"
  by (induction xs rule: deleted.induct) simp_all

lemma owned_Cons: "owned nets = (key, network) # rest \<Longrightarrow> \<not> External network"
  by (metis (mono_tags, lifting) owned_def Cons_eq_filterD case_prod_conv)

lemma owned_drop_external:
  "External network \<Longrightarrow> owned (pre @ (key, network) # post) = owned (pre @ post)"
  by (simp add: owned_def)

lemma CreateNetworks_loop_owned:
  "CreateNetworks_loop r d (owned nets) tr = CreateNetworks_loop r d nets tr"
  by (induction nets arbitrary: tr)
    (auto simp: owned_def Let_def split: prod.splits list.splits)

lemma DestroyNetworks_loop_owned:
  "DestroyNetworks_loop r (owned nets) fe tr = DestroyNetworks_loop r nets fe tr"
  by (induction nets arbitrary: tr fe)
    (auto simp: owned_def Let_def split: prod.splits list.splits)

lemma CreateNetworks_loop_all_external:
  "\<forall>(key, network) \<in> set nets. External network \<Longrightarrow>
   CreateNetworks_loop r d nets tr = (Return None, tr)"
  by (induction nets arbitrary: tr) auto

lemma DestroyNetworks_loop_all_external:
  "\<forall>(key, network) \<in> set nets. External network \<Longrightarrow>
   DestroyNetworks_loop r nets fe tr = (Return fe, tr)"
  by (induction nets arbitrary: tr) auto

lemma CreateNetworks_loop_success:
  "fst (CreateNetworks_loop r d nets tr) = Return None \<Longrightarrow>
   created (snd (CreateNetworks_loop r d nets tr)) =
     created tr @ map (\<lambda>(key, network). apiNetwork_of d network) (owned nets)"
  by (induction nets arbitrary: tr)
    (auto simp: owned_def Let_def created_append split: prod.splits list.splits if_splits)

lemma CreateNetworks_loop_success_resolved:
  "fst (CreateNetworks_loop r d nets tr) = Return None \<Longrightarrow>
   resolved (snd (CreateNetworks_loop r d nets tr)) =
     resolved tr @ map (\<lambda>(key, network). Name network) (owned nets)"
  by (induction nets arbitrary: tr)
    (auto simp: owned_def Let_def resolved_append split: prod.splits list.splits if_splits)

text \<open>
  C4. A network marked external is passed over by both operations: the batch with it
  makes the same calls and returns the same as the batch without it, and a batch of
  external networks only makes no call at all (no resolution, no create, no delete).
\<close>

theorem external_networks_are_skipped:
  "(Networks (ComposeProject c) = pre @ (key, network) # post \<and> External network \<longrightarrow>
      CreateNetworks r c tr = CreateNetworks r (with_networks c (pre @ post)) tr \<and>
      DestroyNetworks r c tr = DestroyNetworks r (with_networks c (pre @ post)) tr) \<and>
   ((\<forall>(key, network) \<in> set (Networks (ComposeProject c)). External network) \<longrightarrow>
      CreateNetworks r c tr = (Return None, tr) \<and>
      DestroyNetworks r c tr = (Return None, tr))"
proof (intro conjI impI)
  assume a: "Networks (ComposeProject c) = pre @ (key, network) # post \<and> External network"
  then have o: "owned (Networks (ComposeProject c)) = owned (pre @ post)"
    by (simp add: owned_drop_external)
  show "CreateNetworks r c tr = CreateNetworks r (with_networks c (pre @ post)) tr"
    using CreateNetworks_loop_owned [of r "Network c" "Networks (ComposeProject c)" tr]
      CreateNetworks_loop_owned [of r "Network c" "pre @ post" tr] o
    by (simp add: CreateNetworks_def with_networks_def)
  show "DestroyNetworks r c tr = DestroyNetworks r (with_networks c (pre @ post)) tr"
    using DestroyNetworks_loop_owned [of r "Networks (ComposeProject c)" None tr]
      DestroyNetworks_loop_owned [of r "pre @ post" None tr] o
    by (simp add: DestroyNetworks_def with_networks_def)
next
  assume "\<forall>(key, network) \<in> set (Networks (ComposeProject c)). External network"
  then show "CreateNetworks r c tr = (Return None, tr)"
    "DestroyNetworks r c tr = (Return None, tr)"
    by (simp_all add: CreateNetworks_def DestroyNetworks_def
        CreateNetworks_loop_all_external DestroyNetworks_loop_all_external)
qed

theorem external_networks_are_skipped_witness:
  "CreateNetworks remote_ok (app_of Map.empty [(''a'', net_a), (''s'', net_shared), (''b'', net_b)]) []
     = CreateNetworks remote_ok (app_of Map.empty [(''a'', net_a), (''b'', net_b)]) [] \<and>
   DestroyNetworks remote_ok (app_of Map.empty [(''a'', net_a), (''s'', net_shared), (''b'', net_b)]) []
     = DestroyNetworks remote_ok (app_of Map.empty [(''a'', net_a), (''b'', net_b)]) [] \<and>
   CreateNetworks remote_ok (app_of Map.empty [(''s'', net_shared)]) [] = (Return None, []) \<and>
   DestroyNetworks remote_ok (app_of Map.empty [(''s'', net_shared)]) [] = (Return None, [])"
proof -
  let ?c = "app_of Map.empty [(''a'', net_a), (''s'', net_shared), (''b'', net_b)]"
  let ?e = "app_of Map.empty [(''s'', net_shared)]"
  have split: "Networks (ComposeProject ?c) = [(''a'', net_a)] @ (''s'', net_shared) # [(''b'', net_b)]
      \<and> External net_shared"
    by (simp add: app_of_def net_shared_def)
  have rest: "with_networks ?c ([(''a'', net_a)] @ [(''b'', net_b)])
      = app_of Map.empty [(''a'', net_a), (''b'', net_b)]"
    by (simp add: app_of_def with_networks_def)
  have only: "\<forall>(key, network) \<in> set (Networks (ComposeProject ?e)). External network"
    by (simp add: app_of_def net_shared_def)
  show ?thesis
    using external_networks_are_skipped [THEN conjunct1, THEN mp, OF split, of remote_ok "[]"]
      external_networks_are_skipped [THEN conjunct2, THEN mp, OF only, of remote_ok "[]"]
    by (simp only: rest)
qed

section \<open>The request of a network\<close>

lemma Extensions_Get_cases:
  "Extensions_Get e k t =
     (case e k of
        None \<Rightarrow> ((False, None), t)
      | Some (ExtString s) \<Rightarrow> ((True, None), s)
      | Some ExtNull \<Rightarrow> ((True, None), t)
      | Some ExtOther \<Rightarrow> ((True, Some (Err ''expected type string'')), t))"
  by (simp add: Extensions_Get_def split: option.splits ext_value.splits)

lemma nettype_of_cases:
  "nettype_of d network =
     (case Extensions network ''x-incus-type'' of
        Some (ExtString s) \<Rightarrow> s
      | Some ExtNull \<Rightarrow> []
      | _ \<Rightarrow> Type d)"
  by (simp add: nettype_of_def Extensions_Get_cases split: option.splits ext_value.splits)

lemma uplink_of_cases:
  "uplink_of d network =
     (case Extensions network ''x-incus-uplink'' of
        Some (ExtString s) \<Rightarrow> s
      | Some ExtNull \<Rightarrow> []
      | _ \<Rightarrow> Uplink d)"
  by (simp add: uplink_of_def Extensions_Get_cases split: option.splits ext_value.splits)

text \<open>
  C5. The type a network is created with is what \<^verbatim>\<open>Extensions.Get\<close> read for
  \<^verbatim>\<open>x-incus-type\<close> when the key is present and was read without error, and the run-level
  default \<^verbatim>\<open>c.Network.Type\<close> otherwise; the same holds for the uplink with
  \<^verbatim>\<open>x-incus-uplink\<close> and \<^verbatim>\<open>c.Network.Uplink\<close>. Spelled out by the value of the key: a
  string is taken as it is, an absent key or a value that is not a string gives the
  default, and a null (read without error, storing nothing) gives the empty string. The
  request carries that type, and that uplink when the type is ovn.
\<close>

theorem effective_type_and_uplink:
  "(Extensions_Get (Extensions network) ''x-incus-type'' [] = ((ok, err), v) \<longrightarrow>
      nettype_of d network = (if ok \<and> err = None then v else Type d)) \<and>
   (Extensions_Get (Extensions network) ''x-incus-uplink'' [] = ((ok', err'), v') \<longrightarrow>
      uplink_of d network = (if ok' \<and> err' = None then v' else Uplink d)) \<and>
   (Extensions network ''x-incus-type'' = Some (ExtString s) \<longrightarrow> nettype_of d network = s) \<and>
   (Extensions network ''x-incus-type'' = None \<longrightarrow> nettype_of d network = Type d) \<and>
   (Extensions network ''x-incus-type'' = Some ExtOther \<longrightarrow> nettype_of d network = Type d) \<and>
   (Extensions network ''x-incus-type'' = Some ExtNull \<longrightarrow> nettype_of d network = []) \<and>
   (Extensions network ''x-incus-uplink'' = Some (ExtString s') \<longrightarrow> uplink_of d network = s') \<and>
   (Extensions network ''x-incus-uplink'' = None \<longrightarrow> uplink_of d network = Uplink d) \<and>
   (Extensions network ''x-incus-uplink'' = Some ExtOther \<longrightarrow> uplink_of d network = Uplink d) \<and>
   (Extensions network ''x-incus-uplink'' = Some ExtNull \<longrightarrow> uplink_of d network = []) \<and>
   post_Type (apiNetwork_of d network) = nettype_of d network \<and>
   (nettype_of d network = ''ovn'' \<longrightarrow>
      post_Config (apiNetwork_of d network) ''network'' = Some (uplink_of d network))"
proof -
  have "Extensions_Get (Extensions network) ''x-incus-type'' [] = ((ok, err), v) \<longrightarrow>
      nettype_of d network = (if ok \<and> err = None then v else Type d)"
    by (auto simp: nettype_of_def)
  moreover have "Extensions_Get (Extensions network) ''x-incus-uplink'' [] = ((ok', err'), v') \<longrightarrow>
      uplink_of d network = (if ok' \<and> err' = None then v' else Uplink d)"
    by (auto simp: uplink_of_def)
  moreover have "post_Type (apiNetwork_of d network) = nettype_of d network"
    by (simp add: apiNetwork_of_def Let_def)
  moreover have "nettype_of d network = ''ovn'' \<longrightarrow>
      post_Config (apiNetwork_of d network) ''network'' = Some (uplink_of d network)"
    by (simp add: apiNetwork_of_def Let_def)
  ultimately show ?thesis
    by (simp add: nettype_of_cases uplink_of_cases)
qed

theorem effective_type_and_uplink_witness:
  "nettype_of \<lparr>Type = ''bridge'', Uplink = ''uplink0''\<rparr> net_b = ''ovn'' \<and>
   uplink_of \<lparr>Type = ''bridge'', Uplink = ''uplink0''\<rparr> net_b = ''up0'' \<and>
   nettype_of \<lparr>Type = ''bridge'', Uplink = ''uplink0''\<rparr> net_plain = ''bridge'' \<and>
   uplink_of \<lparr>Type = ''bridge'', Uplink = ''uplink0''\<rparr> net_plain = ''uplink0'' \<and>
   post_Config (apiNetwork_of \<lparr>Type = ''bridge'', Uplink = ''uplink0''\<rparr> net_b) ''network''
     = Some ''up0''"
proof -
  let ?d = "\<lparr>Type = ''bridge'', Uplink = ''uplink0''\<rparr>"
  have b: "Extensions net_b ''x-incus-type'' = Some (ExtString ''ovn'')"
    "Extensions net_b ''x-incus-uplink'' = Some (ExtString ''up0'')"
    by (simp_all add: net_b_def)
  have p: "Extensions net_plain ''x-incus-type'' = None"
    "Extensions net_plain ''x-incus-uplink'' = None"
    by (simp_all add: net_plain_def)
  note t = effective_type_and_uplink
  have 1: "nettype_of ?d net_b = ''ovn''"
    using t [of net_b _ _ _ ?d _ _ _ "''ovn''"] b by blast
  have 2: "uplink_of ?d net_b = ''up0''"
    using t [of net_b _ _ _ ?d _ _ _ _ "''up0''"] b by blast
  have 3: "nettype_of ?d net_plain = ''bridge''"
    using t [of net_plain _ _ _ ?d] p by simp
  have 4: "uplink_of ?d net_plain = ''uplink0''"
    using t [of net_plain _ _ _ ?d] p by simp
  have 5: "post_Config (apiNetwork_of ?d net_b) ''network'' = Some ''up0''"
    using t [of net_b _ _ _ ?d] 1 2 by simp
  show ?thesis using 1 2 3 4 5 by simp
qed

text \<open>
  When \<^verbatim>\<open>CreateNetworks\<close> returns nil, the create-network calls it made are, in
  iteration order, exactly one per network that is not external, each with the request
  built for that network: the name is \<^verbatim>\<open>network.Name\<close>, the name the resolver is given,
  the type is the effective type, and the config holds the single key \<^verbatim>\<open>network\<close>, set
  to the effective uplink, when the type is ovn and is empty otherwise. Each of these
  networks was resolved once.
\<close>

lemma successful_create_batch:
  "fst (CreateNetworks r c tr) = Return None \<Longrightarrow>
     created (snd (CreateNetworks r c tr)) =
       created tr @ map (\<lambda>(key, network). apiNetwork_of (Network c) network)
                        (owned (Networks (ComposeProject c))) \<and>
     resolved (snd (CreateNetworks r c tr)) =
       resolved tr @ map (\<lambda>(key, network). Name network) (owned (Networks (ComposeProject c))) \<and>
     post_Name (apiNetwork_of (Network c) network) = Name network \<and>
     post_Type (apiNetwork_of (Network c) network) = nettype_of (Network c) network \<and>
     post_Config (apiNetwork_of (Network c) network) =
       (if nettype_of (Network c) network = ''ovn''
        then [''network'' \<mapsto> uplink_of (Network c) network] else Map.empty)"
  using CreateNetworks_loop_success [of r "Network c" "Networks (ComposeProject c)" tr]
    CreateNetworks_loop_success_resolved [of r "Network c" "Networks (ComposeProject c)" tr]
  by (simp add: CreateNetworks_def apiNetwork_of_def Let_def)

lemma successful_create_batch_scenario:
  "fst (CreateNetworks remote_ok (app_of Map.empty [(''a'', net_a), (''b'', net_b)]) []) = Return None \<and>
   created (snd (CreateNetworks remote_ok (app_of Map.empty [(''a'', net_a), (''b'', net_b)]) [])) =
     [\<lparr>post_Name = ''net-a'', post_Type = ''bridge'', post_Config = Map.empty\<rparr>,
      \<lparr>post_Name = ''net-b'', post_Type = ''ovn'', post_Config = [''network'' \<mapsto> ''up0'']\<rparr>] \<and>
   resolved (snd (CreateNetworks remote_ok (app_of Map.empty [(''a'', net_a), (''b'', net_b)]) [])) =
     [''net-a'', ''net-b'']"
proof -
  let ?c = "app_of Map.empty [(''a'', net_a), (''b'', net_b)]"
  have ok: "fst (CreateNetworks remote_ok ?c []) = Return None"
    by (simp add: CreateNetworks_def app_of_def remote_ok_def net_a_def net_b_def Let_def)
  have a: "apiNetwork_of (Network ?c) net_a =
      \<lparr>post_Name = ''net-a'', post_Type = ''bridge'', post_Config = Map.empty\<rparr>"
    by (simp add: apiNetwork_of_def nettype_of_cases uplink_of_cases app_of_def net_a_def)
  have b: "apiNetwork_of (Network ?c) net_b =
      \<lparr>post_Name = ''net-b'', post_Type = ''ovn'', post_Config = [''network'' \<mapsto> ''up0'']\<rparr>"
    by (simp add: apiNetwork_of_def nettype_of_cases uplink_of_cases app_of_def net_b_def)
  have o: "owned (Networks (ComposeProject ?c)) = [(''a'', net_a), (''b'', net_b)]"
    by (simp add: owned_def app_of_def net_a_def net_b_def)
  have n: "Name net_a = ''net-a''" "Name net_b = ''net-b''"
    by (simp_all add: net_a_def net_b_def)
  show ?thesis
    using successful_create_batch [OF ok, of net_a] ok
    by (simp add: o a b n)
qed

text \<open>
  C6. The batch \<^verbatim>\<open>net-a\<close> on a control plane whose resolver returns the remote-side name
  \<^verbatim>\<open>r-net-a\<close> for it: the create request carries \<^verbatim>\<open>net-a\<close>, the name given to the
  resolver (line 38, \<^verbatim>\<open>network.Name\<close>), not the remote-side name the resolver returned.
  On the same batch \<^verbatim>\<open>DestroyNetworks\<close> deletes \<^verbatim>\<open>r-net-a\<close> (line 88, \<^verbatim>\<open>resource.name\<close>),
  so the network created is not the one deleted.
\<close>

theorem CreateNetworks_request_carries_the_given_name:
  "fst (ParseServers remote_renaming [] (Name net_a)) = [\<lparr>server = 0, name = ''r-net-a''\<rparr>] \<and>
   CreateNetworks remote_renaming (app_of Map.empty [(''a'', net_a)]) [] =
     (Return None,
      [ParseServersCall ''net-a'',
       CreateNetworkCall 0 \<lparr>post_Name = ''net-a'', post_Type = ''bridge'', post_Config = Map.empty\<rparr>]) \<and>
   DestroyNetworks remote_renaming (app_of Map.empty [(''a'', net_a)]) [] =
     (Return None, [ParseServersCall ''net-a'', DeleteNetworkCall 0 ''r-net-a''])"
  by (simp add: CreateNetworks_def DestroyNetworks_def app_of_def remote_renaming_def
      net_a_def Let_def apiNetwork_of_def nettype_of_cases uplink_of_cases)

section \<open>Failures\<close>

text \<open>The create loop over a batch in two parts: the second part runs only after the first returned nil.\<close>

lemma CreateNetworks_loop_append:
  "CreateNetworks_loop r d (pre @ post) tr =
     (if fst (CreateNetworks_loop r d pre tr) = Return None
      then CreateNetworks_loop r d post (snd (CreateNetworks_loop r d pre tr))
      else CreateNetworks_loop r d pre tr)"
  by (induction pre arbitrary: tr)
    (auto simp: Let_def split: prod.splits list.splits)

lemma CreateNetworks_loop_create_error:
  assumes "\<not> External network"
    and "ParseServers r tr (Name network) = (res # rs, None)"
    and "CreateNetwork r (tr @ [ParseServersCall (Name network)]) (server res)
           (apiNetwork_of d network) = Some e"
  shows "CreateNetworks_loop r d ((key, network) # rest) tr =
     (Return (Some e),
      tr @ [ParseServersCall (Name network),
            CreateNetworkCall (server res) (apiNetwork_of d network)])"
  using assms by (simp add: Let_def)

lemma CreateNetworks_loop_resolution_error:
  assumes "\<not> External network"
    and "ParseServers r tr (Name network) = (rs, Some e)"
  shows "CreateNetworks_loop r d ((key, network) # rest) tr =
     (Return (Some e), tr @ [ParseServersCall (Name network)])"
  using assms by simp

lemma CreateNetworks_loop_empty_endpoints:
  assumes "\<not> External network"
    and "ParseServers r tr (Name network) = ([], None)"
  shows "CreateNetworks_loop r d ((key, network) # rest) tr =
     (Panic, tr @ [ParseServersCall (Name network)])"
  using assms by simp

lemma DestroyNetworks_loop_empty_endpoints:
  "(key, network) \<in> set nets \<Longrightarrow> \<not> External network \<Longrightarrow>
   \<forall>h. fst (ParseServers r h (Name network)) = [] \<Longrightarrow>
   fst (DestroyNetworks_loop r nets fe tr) = Panic"
proof (induction nets arbitrary: fe tr)
  case Nil
  then show ?case by simp
next
  case (Cons a nets)
  obtain k n where a: "a = (k, n)" by (cases a)
  show ?case
  proof (cases "a = (key, network)")
    case True
    then show ?thesis using Cons.prems
      by (auto simp: Let_def split: prod.splits list.splits dest: spec [of _ tr])
  next
    case False
    then have "(key, network) \<in> set nets" using Cons.prems by auto
    from Cons.IH [OF this Cons.prems(2,3)] show ?thesis
      by (auto simp: a Let_def split: prod.splits list.splits)
  qed
qed

lemma CreateNetworks_loop_no_panic:
  "\<forall>h. \<forall>(key, network) \<in> set (owned nets). fst (ParseServers r h (Name network)) \<noteq> [] \<Longrightarrow>
   fst (CreateNetworks_loop r d nets tr) \<noteq> Panic"
proof (induction nets arbitrary: tr)
  case Nil
  then show ?case by simp
next
  case (Cons a nets)
  obtain k n where a: "a = (k, n)" by (cases a)
  have rest: "\<forall>h. \<forall>(key, network) \<in> set (owned nets). fst (ParseServers r h (Name network)) \<noteq> []"
    using Cons.prems by (auto simp: owned_def)
  show ?case
  proof (cases "External n")
    case True
    then show ?thesis using Cons.IH [OF rest] by (simp add: a)
  next
    case False
    then have "fst (ParseServers r tr (Name n)) \<noteq> []"
      using Cons.prems by (auto simp: a owned_def)
    then show ?thesis using False Cons.IH [OF rest]
      by (auto simp: a Let_def split: prod.splits list.splits)
  qed
qed

lemma DestroyNetworks_loop_no_panic:
  "\<forall>h. \<forall>(key, network) \<in> set (owned nets). fst (ParseServers r h (Name network)) \<noteq> [] \<Longrightarrow>
   fst (DestroyNetworks_loop r nets fe tr) \<noteq> Panic"
proof (induction nets arbitrary: fe tr)
  case Nil
  then show ?case by simp
next
  case (Cons a nets)
  obtain k n where a: "a = (k, n)" by (cases a)
  have rest: "\<forall>h. \<forall>(key, network) \<in> set (owned nets). fst (ParseServers r h (Name network)) \<noteq> []"
    using Cons.prems by (auto simp: owned_def)
  show ?case
  proof (cases "External n")
    case True
    then show ?thesis using Cons.IH [OF rest] by (simp add: a)
  next
    case False
    then have "fst (ParseServers r tr (Name n)) \<noteq> []"
      using Cons.prems by (auto simp: a owned_def)
    then show ?thesis using False Cons.IH [OF rest]
      by (auto simp: a Let_def split: prod.splits list.splits)
  qed
qed

text \<open>
  \<^verbatim>\<open>DestroyNetworks\<close>, when it does not panic, resolves every network it owns and issues
  one delete call for each, whatever failed on the way.
\<close>

lemma DestroyNetworks_loop_visits_all:
  "fst (DestroyNetworks_loop r nets fe tr) \<noteq> Panic \<Longrightarrow>
   resolved (snd (DestroyNetworks_loop r nets fe tr)) =
     resolved tr @ map (\<lambda>(key, network). Name network) (owned nets) \<and>
   length (deleted (snd (DestroyNetworks_loop r nets fe tr))) =
     length (deleted tr) + length (owned nets)"
  by (induction nets arbitrary: tr fe)
    (auto simp: owned_def Let_def resolved_append deleted_append
      split: prod.splits list.splits if_splits)

text \<open>\<^verbatim>\<open>errors.Join\<close> loses no cause, and \<^verbatim>\<open>DestroyNetworks\<close> only ever adds to \<open>funcError\<close>.\<close>

lemma errors_Join_causes: "causes_of (errors_Join errs) = concat (map causes_of errs)"
proof -
  define es where "es = [e. Some e \<leftarrow> errs]"
  have c: "concat (map causes es) = concat (map causes_of errs)"
    unfolding es_def by (induction errs) (auto simp: causes_of_def split: option.splits)
  have "errors_Join errs = (case es of [] \<Rightarrow> None | a # l \<Rightarrow> Some (JoinError (a # l)))"
    unfolding errors_Join_def es_def by (rule refl)
  then show ?thesis
    using c by (cases es) (auto simp: causes_of_def)
qed

lemma DestroyNetworks_loop_keeps_failures:
  "fst (DestroyNetworks_loop r nets fe tr) = Return e \<Longrightarrow>
   \<exists>more. causes_of e = causes_of fe @ more"
proof (induction nets arbitrary: fe tr)
  case Nil
  then show ?case by simp
next
  case (Cons a nets)
  obtain k n where a: "a = (k, n)" by (cases a)
  show ?case
  proof (cases "External n")
    case True
    then show ?thesis using Cons by (simp add: a)
  next
    case False
    obtain resources err where p: "ParseServers r tr (Name n) = (resources, err)"
      by (cases "ParseServers r tr (Name n)")
    show ?thesis
    proof (cases resources)
      case Nil
      then show ?thesis using Cons.prems False by (simp add: a p)
    next
      case (Cons res rs)
      let ?fe1 = "if err \<noteq> None then errors_Join [fe, err] else fe"
      let ?tr1 = "tr @ [ParseServersCall (Name n)]"
      let ?err2 = "DeleteNetwork r ?tr1 (server res) (name res)"
      let ?fe2 = "if ?err2 \<noteq> None then errors_Join [?fe1, ?err2] else ?fe1"
      have "fst (DestroyNetworks_loop r nets ?fe2 (?tr1 @ [DeleteNetworkCall (server res) (name res)])) = Return e"
        using Cons.prems False by (auto simp: a p Cons Let_def split: if_splits)
      from Cons.IH [OF this] obtain more where m: "causes_of e = causes_of ?fe2 @ more" by blast
      have "\<exists>m1. causes_of ?fe1 = causes_of fe @ m1"
        by (simp add: errors_Join_causes)
      moreover have "\<exists>m2. causes_of ?fe2 = causes_of ?fe1 @ m2"
        by (simp add: errors_Join_causes)
      ultimately show ?thesis using m by (metis append.assoc)
    qed
  qed
qed

text \<open>
  C1. The batch \<^verbatim>\<open>net-a\<close>, \<^verbatim>\<open>net-b\<close> (neither external) on a control plane that refuses
  to create \<^verbatim>\<open>net-a\<close>: \<^verbatim>\<open>CreateNetworks\<close> returns that one error right after the failed
  call (line 58) and \<^verbatim>\<open>net-b\<close> is neither resolved nor created. On the same batch
  \<^verbatim>\<open>DestroyNetworks\<close>, whose delete of \<^verbatim>\<open>net-a\<close> fails, goes on to \<^verbatim>\<open>net-b\<close> and returns
  the joined error.
\<close>

theorem CreateNetworks_stops_at_first_failure:
  "CreateNetworks remote_refuses_a (app_of Map.empty [(''a'', net_a), (''b'', net_b)]) [] =
     (Return (Some (Err ''create net-a'')),
      [ParseServersCall ''net-a'',
       CreateNetworkCall 0 \<lparr>post_Name = ''net-a'', post_Type = ''bridge'', post_Config = Map.empty\<rparr>]) \<and>
   DestroyNetworks remote_refuses_a (app_of Map.empty [(''a'', net_a), (''b'', net_b)]) [] =
     (Return (Some (JoinError [Err ''delete net-a''])),
      [ParseServersCall ''net-a'', DeleteNetworkCall 0 ''net-a'',
       ParseServersCall ''net-b'', DeleteNetworkCall 0 ''net-b''])"
  by (simp add: CreateNetworks_def DestroyNetworks_def app_of_def remote_refuses_a_def
      net_a_def net_b_def Let_def apiNetwork_of_def nettype_of_cases uplink_of_cases
      errors_Join_def)

text \<open>
  C7. The same batch on a control plane where \<^verbatim>\<open>ParseServers\<close> fails for \<^verbatim>\<open>net-a\<close>
  (nil and an error): \<^verbatim>\<open>CreateNetworks\<close> returns the error at once (line 49) and
  \<^verbatim>\<open>net-b\<close> is never attempted; \<^verbatim>\<open>DestroyNetworks\<close> joins the error and then indexes
  the empty list (line 85), so it panics, \<^verbatim>\<open>net-b\<close> is never attempted and no aggregated
  error is returned.
\<close>

theorem resolution_failure_ends_the_batch:
  "CreateNetworks remote_unresolved_a (app_of Map.empty [(''a'', net_a), (''b'', net_b)]) [] =
     (Return (Some (Err ''resolve net-a'')), [ParseServersCall ''net-a'']) \<and>
   DestroyNetworks remote_unresolved_a (app_of Map.empty [(''a'', net_a), (''b'', net_b)]) [] =
     (Panic, [ParseServersCall ''net-a''])"
  by (simp add: CreateNetworks_def DestroyNetworks_def app_of_def remote_unresolved_a_def
      net_a_def net_b_def Let_def errors_Join_def)

text \<open>
  C10, as stated, fails for \<^verbatim>\<open>CreateNetworks\<close>: \<^verbatim>\<open>net-a\<close> is not external and resolves
  to an empty list, with an error, and the operation returns that error; it does not panic.
\<close>

theorem CreateNetworks_empty_list_with_error_counterexample:
  "\<not> External net_a \<and>
   fst (ParseServers remote_unresolved_a [] (Name net_a)) = [] \<and>
   fst (CreateNetworks remote_unresolved_a (app_of Map.empty [(''a'', net_a)]) []) =
     Return (Some (Err ''resolve net-a''))"
  by (simp add: CreateNetworks_def app_of_def remote_unresolved_a_def net_a_def Let_def)

text \<open>
  C10, amended. Neither operation checks that the list \<^verbatim>\<open>ParseServers\<close> returned is
  non-empty before taking its first element. \<^verbatim>\<open>CreateNetworks\<close> checks the error first:
  when it reaches a network that is not external (the networks before it were created),
  an empty list without an error makes it panic, and an error is returned without a
  panic whatever the list. \<^verbatim>\<open>DestroyNetworks\<close> takes the first element also after an
  error: it panics whenever some network that is not external resolves to an empty list.
  Neither panics when every resolution of a network that is not external yields at least
  one endpoint.
\<close>

theorem first_endpoint_is_taken_unchecked:
  "(Networks (ComposeProject c) = pre @ (key, network) # post \<and> \<not> External network \<and>
    fst (CreateNetworks_loop r (Network c) pre tr) = Return None \<and>
    ParseServers r (snd (CreateNetworks_loop r (Network c) pre tr)) (Name network) = ([], None)
      \<longrightarrow> fst (CreateNetworks r c tr) = Panic) \<and>
   (Networks (ComposeProject c) = pre @ (key, network) # post \<and> \<not> External network \<and>
    fst (CreateNetworks_loop r (Network c) pre tr) = Return None \<and>
    ParseServers r (snd (CreateNetworks_loop r (Network c) pre tr)) (Name network) = (rs, Some e)
      \<longrightarrow> fst (CreateNetworks r c tr) = Return (Some e)) \<and>
   ((key, network) \<in> set (Networks (ComposeProject c)) \<and> \<not> External network \<and>
    (\<forall>h. fst (ParseServers r h (Name network)) = [])
      \<longrightarrow> fst (DestroyNetworks r c tr) = Panic) \<and>
   ((\<forall>h. \<forall>(key, network) \<in> set (owned (Networks (ComposeProject c))).
        fst (ParseServers r h (Name network)) \<noteq> [])
      \<longrightarrow> fst (CreateNetworks r c tr) \<noteq> Panic \<and> fst (DestroyNetworks r c tr) \<noteq> Panic)"
proof (intro conjI impI)
  assume a: "Networks (ComposeProject c) = pre @ (key, network) # post \<and> \<not> External network \<and>
    fst (CreateNetworks_loop r (Network c) pre tr) = Return None \<and>
    ParseServers r (snd (CreateNetworks_loop r (Network c) pre tr)) (Name network) = ([], None)"
  then show "fst (CreateNetworks r c tr) = Panic"
    by (simp add: CreateNetworks_def CreateNetworks_loop_append)
next
  assume a: "Networks (ComposeProject c) = pre @ (key, network) # post \<and> \<not> External network \<and>
    fst (CreateNetworks_loop r (Network c) pre tr) = Return None \<and>
    ParseServers r (snd (CreateNetworks_loop r (Network c) pre tr)) (Name network) = (rs, Some e)"
  then show "fst (CreateNetworks r c tr) = Return (Some e)"
    by (simp add: CreateNetworks_def CreateNetworks_loop_append)
next
  assume "(key, network) \<in> set (Networks (ComposeProject c)) \<and> \<not> External network \<and>
    (\<forall>h. fst (ParseServers r h (Name network)) = [])"
  then show "fst (DestroyNetworks r c tr) = Panic"
    using DestroyNetworks_loop_empty_endpoints [of key network "Networks (ComposeProject c)" r None tr]
    by (simp add: DestroyNetworks_def)
next
  assume a: "\<forall>h. \<forall>(key, network) \<in> set (owned (Networks (ComposeProject c))).
        fst (ParseServers r h (Name network)) \<noteq> []"
  show "fst (CreateNetworks r c tr) \<noteq> Panic"
    using CreateNetworks_loop_no_panic [OF a] by (simp add: CreateNetworks_def)
  show "fst (DestroyNetworks r c tr) \<noteq> Panic"
    using DestroyNetworks_loop_no_panic [OF a] by (simp add: DestroyNetworks_def)
qed

theorem first_endpoint_is_taken_unchecked_witness:
  "fst (CreateNetworks remote_empty_a (app_of Map.empty [(''b'', net_b), (''a'', net_a)]) []) = Panic \<and>
   fst (CreateNetworks remote_unresolved_a (app_of Map.empty [(''b'', net_b), (''a'', net_a)]) [])
     = Return (Some (Err ''resolve net-a'')) \<and>
   fst (DestroyNetworks remote_unresolved_a (app_of Map.empty [(''b'', net_b), (''a'', net_a)]) [])
     = Panic \<and>
   fst (CreateNetworks remote_ok (app_of Map.empty [(''b'', net_b), (''a'', net_a)]) []) \<noteq> Panic \<and>
   fst (DestroyNetworks remote_ok (app_of Map.empty [(''b'', net_b), (''a'', net_a)]) []) \<noteq> Panic"
proof -
  let ?c = "app_of Map.empty [(''b'', net_b), (''a'', net_a)]"
  note t = first_endpoint_is_taken_unchecked
  have 1: "Networks (ComposeProject ?c) = [(''b'', net_b)] @ (''a'', net_a) # [] \<and> \<not> External net_a \<and>
    fst (CreateNetworks_loop remote_empty_a (Network ?c) [(''b'', net_b)] []) = Return None \<and>
    ParseServers remote_empty_a (snd (CreateNetworks_loop remote_empty_a (Network ?c) [(''b'', net_b)] []))
      (Name net_a) = ([], None)"
    by (simp add: app_of_def remote_empty_a_def net_a_def net_b_def Let_def)
  have 2: "Networks (ComposeProject ?c) = [(''b'', net_b)] @ (''a'', net_a) # [] \<and> \<not> External net_a \<and>
    fst (CreateNetworks_loop remote_unresolved_a (Network ?c) [(''b'', net_b)] []) = Return None \<and>
    ParseServers remote_unresolved_a
      (snd (CreateNetworks_loop remote_unresolved_a (Network ?c) [(''b'', net_b)] []))
      (Name net_a) = ([], Some (Err ''resolve net-a''))"
    by (simp add: app_of_def remote_unresolved_a_def net_a_def net_b_def Let_def)
  have 3: "(''a'', net_a) \<in> set (Networks (ComposeProject ?c)) \<and> \<not> External net_a \<and>
    (\<forall>h. fst (ParseServers remote_unresolved_a h (Name net_a)) = [])"
    by (simp add: app_of_def remote_unresolved_a_def net_a_def)
  have 4: "\<forall>h. \<forall>(key, network) \<in> set (owned (Networks (ComposeProject ?c))).
        fst (ParseServers remote_ok h (Name network)) \<noteq> []"
    by (simp add: remote_ok_def)
  show ?thesis
    using t [THEN conjunct1, THEN mp, OF 1]
      t [THEN conjunct2, THEN conjunct1, THEN mp, OF 2]
      t [THEN conjunct2, THEN conjunct2, THEN conjunct1, THEN mp, OF 3, of "[]"]
      t [THEN conjunct2, THEN conjunct2, THEN conjunct2, THEN mp, OF 4, of "[]"]
    by simp
qed

section \<open>The dependency graph\<close>

lemma AddVertex_snd [simp]:
  "vertices (snd (AddVertex g v)) = insert v (vertices g)"
  "edges (snd (AddVertex g v)) = edges g"
  "traits (snd (AddVertex g v)) = traits g"
  by (auto simp: AddVertex_def)

lemma fold_AddVertex [simp]:
  "vertices (fold (\<lambda>v g. snd (AddVertex g v)) ks g) = vertices g \<union> set ks"
  "edges (fold (\<lambda>v g. snd (AddVertex g v)) ks g) = edges g"
  "traits (fold (\<lambda>v g. snd (AddVertex g v)) ks g) = traits g"
  by (induction ks arbitrary: g) auto

lemma AddEdge_snd [simp]:
  "vertices (snd (AddEdge g s t)) = vertices g"
  "traits (snd (AddEdge g s t)) = traits g"
  by (auto simp: AddEdge_def)

text \<open>Without \<^verbatim>\<open>PreventCycles\<close> an edge between two vertices of the graph is always there afterwards.\<close>

lemma AddEdge_edges:
  "\<not> PreventCycles (traits g) \<Longrightarrow>
   edges (snd (AddEdge g s t)) =
     (if s \<in> vertices g \<and> t \<in> vertices g then insert (s, t) (edges g) else edges g)"
  by (auto simp: AddEdge_def)

lemma AddEdge_unknown_target:
  "s \<in> vertices g \<Longrightarrow> t \<notin> vertices g \<Longrightarrow>
   AddEdge g s t = (Some (Wrapped (''target vertex '' @ t) ErrVertexNotFound), g)"
  by (simp add: AddEdge_def)

lemma fold_AddEdge_frame [simp]:
  "vertices (fold (\<lambda>dep g. snd (AddEdge g s dep)) ds g) = vertices g"
  "traits (fold (\<lambda>dep g. snd (AddEdge g s dep)) ds g) = traits g"
  by (induction ds arbitrary: g) auto

lemma fold_AddEdge_edges:
  "\<not> PreventCycles (traits g) \<Longrightarrow>
   edges (fold (\<lambda>dep g. snd (AddEdge g s dep)) ds g) =
     edges g \<union> {(s', dep). s' = s \<and> dep \<in> set ds \<and> s \<in> vertices g \<and> dep \<in> vertices g}"
proof (induction ds arbitrary: g)
  case Nil
  then show ?case by simp
next
  case (Cons d ds)
  have "\<not> PreventCycles (traits (snd (AddEdge g s d)))"
    using Cons.prems by simp
  from Cons.IH [OF this] show ?case
    using Cons.prems by (auto simp: AddEdge_edges)
qed

lemma fold_services_frame [simp]:
  "vertices (fold (\<lambda>k g. fold (\<lambda>dep g. snd (AddEdge g k dep)) (f k) g) ks g) = vertices g"
  "traits (fold (\<lambda>k g. fold (\<lambda>dep g. snd (AddEdge g k dep)) (f k) g) ks g) = traits g"
  by (induction ks arbitrary: g) auto

lemma fold_services_edges:
  "\<not> PreventCycles (traits g) \<Longrightarrow>
   edges (fold (\<lambda>k g. fold (\<lambda>dep g. snd (AddEdge g k dep)) (f k) g) ks g) =
     edges g \<union>
     {(s, dep). s \<in> set ks \<and> dep \<in> set (f s) \<and> s \<in> vertices g \<and> dep \<in> vertices g}"
proof (induction ks arbitrary: g)
  case Nil
  then show ?case by simp
next
  case (Cons k ks)
  let ?g = "fold (\<lambda>dep g. snd (AddEdge g k dep)) (f k) g"
  have "\<not> PreventCycles (traits ?g)"
    using Cons.prems by simp
  from Cons.IH [OF this] show ?case
    using Cons.prems by (auto simp: fold_AddEdge_edges)
qed

lemma graph_New_root [simp]:
  "vertices (graph_New [Directed, Acyclic]) = {}"
  "edges (graph_New [Directed, Acyclic]) = {}"
  "traits (graph_New [Directed, Acyclic]) = root_traits"
  by (simp_all add: graph_New_def Directed_def Acyclic_def root_traits_def)

lemma build_Dag_vertices: "vertices (build_Dag services ks1 ks2) = set ks1"
  by (simp add: build_Dag_def)

lemma build_Dag_traits: "traits (build_Dag services ks1 ks2) = root_traits"
  by (simp add: build_Dag_def)

lemma build_Dag_edges:
  "edges (build_Dag services ks1 ks2) =
     {(s, dep). s \<in> set ks2 \<and> dep \<in> set (DependsOn_of services s) \<and>
                s \<in> set ks1 \<and> dep \<in> set ks1}"
  by (simp add: build_Dag_def fold_services_edges root_traits_def)

lemma build_Dag_range:
  assumes "range_keys services ks1" "range_keys services ks2"
  shows "build_Dag services ks1 ks2 =
    \<lparr>traits = root_traits,
     vertices = dom services,
     edges = {(s, dep) \<in> declared_edges services. dep \<in> dom services}\<rparr>"
  using assms
  by (intro graph.equality)
    (auto simp: build_Dag_vertices build_Dag_traits build_Dag_edges range_keys_def
      declared_edges_def)

lemma range_keys_chain:
  "range_keys services_chain [''db'', ''api'', ''web'']"
  "range_keys services_chain [''web'', ''db'', ''api'']"
  by (auto simp: range_keys_def services_chain_def split: if_splits)

lemma range_keys_cycle:
  "range_keys services_cycle [''A'', ''B'']"
  "range_keys services_cycle [''B'', ''A'']"
  by (auto simp: range_keys_def services_cycle_def split: if_splits)

lemma range_keys_ghost: "range_keys services_ghost [''x'']"
  by (auto simp: range_keys_def services_ghost_def split: if_splits)

text \<open>
  C9. Two builds of the graph from the same service set give the same graph (the same
  traits, vertex set and edge set), whatever the orders in which the four \<^verbatim>\<open>range\<close>
  loops yield the keys of the service map.
\<close>

theorem build_Dag_deterministic:
  assumes "range_keys services ks1" and "range_keys services ks2"
    and "range_keys services ks1'" and "range_keys services ks2'"
  shows "build_Dag services ks1 ks2 = build_Dag services ks1' ks2' \<and>
    vertices (build_Dag services ks1 ks2) = vertices (build_Dag services ks1' ks2') \<and>
    edges (build_Dag services ks1 ks2) = edges (build_Dag services ks1' ks2')"
  using build_Dag_range [OF assms(1,2)] build_Dag_range [OF assms(3,4)] by simp

theorem build_Dag_deterministic_witness:
  "build_Dag services_chain [''db'', ''api'', ''web''] [''web'', ''db'', ''api''] =
   build_Dag services_chain [''web'', ''db'', ''api''] [''db'', ''api'', ''web''] \<and>
   edges (build_Dag services_chain [''db'', ''api'', ''web''] [''web'', ''db'', ''api'']) =
   edges (build_Dag services_chain [''web'', ''db'', ''api''] [''db'', ''api'', ''web''])"
  using build_Dag_deterministic
    [OF range_keys_chain(1) range_keys_chain(2) range_keys_chain(2) range_keys_chain(1)]
  by simp

text \<open>
  C8, as stated, fails: service \<^verbatim>\<open>x\<close> declares the dependency \<^verbatim>\<open>ghost\<close>, and the built
  graph has no edge from \<^verbatim>\<open>x\<close> to \<^verbatim>\<open>ghost\<close>.
\<close>

theorem build_Dag_unknown_dependency_counterexample:
  "range_keys services_ghost [''x''] \<and>
   (''x'', ''ghost'') \<in> declared_edges services_ghost \<and>
   (''x'', ''ghost'') \<notin> edges (build_Dag services_ghost [''x''] [''x''])"
  by (simp add: range_keys_ghost declared_edges_def build_Dag_edges)
    (simp add: services_ghost_def DependsOn_of_def)

text \<open>
  C8, amended. The built graph has exactly the declared services as vertices, and its
  edges are exactly the pairs service, dependency in which the dependency is itself a
  declared service; a dependency on a name that is not declared adds nothing. When every
  declared dependency is a declared service, the edges are exactly the declared
  dependencies.
\<close>

theorem build_Dag_vertices_and_edges:
  assumes "range_keys services ks1" and "range_keys services ks2"
  shows "vertices (build_Dag services ks1 ks2) = dom services \<and>
    edges (build_Dag services ks1 ks2) =
      {(s, dep) \<in> declared_edges services. dep \<in> dom services} \<and>
    ((\<forall>(s, dep) \<in> declared_edges services. dep \<in> dom services) \<longrightarrow>
       edges (build_Dag services ks1 ks2) = declared_edges services)"
  using build_Dag_range [OF assms] by auto

theorem build_Dag_vertices_and_edges_witness:
  "vertices (build_Dag services_chain [''db'', ''api'', ''web''] [''web'', ''db'', ''api''])
     = {''db'', ''api'', ''web''} \<and>
   edges (build_Dag services_chain [''db'', ''api'', ''web''] [''web'', ''db'', ''api''])
     = {(''api'', ''db''), (''web'', ''api'')}"
proof -
  have d: "dom services_chain = {''db'', ''api'', ''web''}"
    by (auto simp: services_chain_def split: if_splits)
  have e: "declared_edges services_chain = {(''api'', ''db''), (''web'', ''api'')}"
    by (auto simp: declared_edges_def services_chain_def DependsOn_of_def split: if_splits)
  have known: "\<forall>(s, dep) \<in> declared_edges services_chain. dep \<in> dom services_chain"
    by (simp add: d e)
  note t = build_Dag_vertices_and_edges [OF range_keys_chain(1) range_keys_chain(2)]
  have "edges (build_Dag services_chain [''db'', ''api'', ''web''] [''web'', ''db'', ''api''])
      = declared_edges services_chain"
    using t known by blast
  moreover have "vertices (build_Dag services_chain [''db'', ''api'', ''web''] [''web'', ''db'', ''api''])
      = dom services_chain"
    using t by blast
  ultimately show ?thesis
    by (simp add: d e)
qed

section \<open>What the start-up hook returns\<close>

text \<open>Once \<^verbatim>\<open>BuildDirect\<close> has returned the application, nothing that follows can fail.\<close>

lemma PersistentPreRunE_loaded:
  "load_application h viper forceLocal tr = (Return (Inr app), tr') \<Longrightarrow>
   PersistentPreRunE h viper forceLocal ks1 ks2 tr =
     (Return (Inr (app\<lparr>Network := \<lparr>Type = network_type viper, Uplink = network_uplink viper\<rparr>,
                       Remote := remote_name viper,
                       Dag := build_Dag (Services app) ks1 ks2\<rparr>)), tr')"
  by (simp add: PersistentPreRunE_def)

lemma PersistentPreRunE_trace:
  "snd (PersistentPreRunE h viper forceLocal ks1 ks2 tr) = snd (load_application h viper forceLocal tr)"
  by (simp add: PersistentPreRunE_def split: prod.splits outcome.splits sum.splits)

lemma PersistentPreRunE_error:
  "fst (PersistentPreRunE h viper forceLocal ks1 ks2 tr) = Return (Inl err) \<Longrightarrow>
   fst (load_application h viper forceLocal tr) = Return (Inl err)"
  by (simp add: PersistentPreRunE_def split: prod.splits outcome.splits sum.splits)

lemma configDir_of_error: "configDir_of h = Inl err \<Longrightarrow> user_Current h = Inl err"
  by (simp add: configDir_of_def split: if_splits sum.splits)

lemma cachePath_of_error: "cachePath_of h = Inl err \<Longrightarrow> user_Current h = Inl err"
  by (simp add: cachePath_of_def split: if_splits sum.splits)

text \<open>Every error of the first part is one a collaborator returned.\<close>

lemma load_application_error:
  assumes "fst (load_application h viper forceLocal tr) = Return (Inl err)"
  shows "user_Current h = Inl err \<or> (\<exists>p. LoadConfig h p = Inl err) \<or>
    (\<exists>dir t. fst (LoadProject h dir t) = Inl err) \<or>
    (\<exists>project conf t. fst (BuildDirect h project conf t) = Inl err)"
proof (cases "configDir_of h")
  case (Inl e)
  then show ?thesis
    using assms configDir_of_error [of h e] by (simp add: load_application_def)
next
  case configDir: (Inr configDir)
  show ?thesis
  proof (cases "cachePath_of h")
    case (Inl e)
    then show ?thesis
      using assms configDir cachePath_of_error [of h e] by (simp add: load_application_def)
  next
    case cachePath: (Inr cachePath0)
    show ?thesis
      using assms configDir cachePath
      by (simp add: load_application_def Let_def
            split: sum.splits prod.splits if_splits option.splits)
        (blast | metis fst_conv)+
  qed
qed

lemma load_application_host_of:
  "load_application (host_of services) settings0 False tr =
     (Return (Inr (app_of services [])), tr)"
  by (simp add: load_application_def configDir_of_def cachePath_of_def host_of_def
      config_NewConfig_def Let_def)

lemma build_Dag_cycle:
  "build_Dag services_cycle [''A'', ''B''] [''B'', ''A''] =
     \<lparr>traits = root_traits, vertices = {''A'', ''B''},
      edges = {(''A'', ''B''), (''B'', ''A'')}\<rparr>"
proof -
  have "dom services_cycle = {''A'', ''B''}"
    by (auto simp: services_cycle_def split: if_splits)
  moreover have "{(s, dep) \<in> declared_edges services_cycle. dep \<in> dom services_cycle}
      = {(''A'', ''B''), (''B'', ''A'')}"
    by (auto simp: declared_edges_def services_cycle_def DependsOn_of_def split: if_splits)
  ultimately show ?thesis
    using build_Dag_range [OF range_keys_cycle(1) range_keys_cycle(2)] by simp
qed

lemma build_Dag_ghost:
  "build_Dag services_ghost [''x''] [''x''] =
     \<lparr>traits = root_traits, vertices = {''x''}, edges = {}\<rparr>"
proof -
  have "dom services_ghost = {''x''}"
    by (auto simp: services_ghost_def split: if_splits)
  moreover have "{(s, dep) \<in> declared_edges services_ghost. dep \<in> dom services_ghost} = {}"
    by (auto simp: declared_edges_def services_ghost_def DependsOn_of_def split: if_splits)
  ultimately show ?thesis
    using build_Dag_range [OF range_keys_ghost range_keys_ghost] by simp
qed

text \<open>
  C2, as stated, fails: with services \<^verbatim>\<open>A\<close> depending on \<^verbatim>\<open>B\<close> and \<^verbatim>\<open>B\<close> on \<^verbatim>\<open>A\<close> the
  hook returns nil, not an error, and a graph is stored in \<^verbatim>\<open>app.Dag\<close>.
\<close>

theorem PersistentPreRunE_cycle_counterexample:
  "PersistentPreRunE (host_of services_cycle) settings0 False [''A'', ''B''] [''B'', ''A''] [] =
   (Return (Inr \<lparr>Services = services_cycle,
                ComposeProject = \<lparr>Networks = []\<rparr>,
                Network = \<lparr>Type = ''bridge'', Uplink = []\<rparr>,
                Remote = [],
                Dag = \<lparr>traits = root_traits, vertices = {''A'', ''B''},
                       edges = {(''A'', ''B''), (''B'', ''A'')}\<rparr>\<rparr>), [])"
  by (simp add: PersistentPreRunE_loaded [OF load_application_host_of])
    (simp add: app_of_def settings0_def build_Dag_cycle)

text \<open>
  C2, amended. The graph build never fails and reports no cycle, whatever the service
  set: once \<^verbatim>\<open>BuildDirect\<close> has returned the application, the hook returns nil with an
  application that has the same services and a graph whose vertices are the declared
  services. Every error the hook returns is one that \<^verbatim>\<open>user.Current\<close>,
  \<^verbatim>\<open>config.LoadConfig\<close>, \<^verbatim>\<open>LoadProject\<close> or \<^verbatim>\<open>BuildDirect\<close> returned, all before the
  graph is built. The graph build makes no call to the control plane: the calls made
  when the hook ends are those made when \<^verbatim>\<open>BuildDirect\<close> returned.
\<close>

theorem cycle_does_not_fail_the_build:
  "(load_application h viper forceLocal tr = (Return (Inr app), tr') \<longrightarrow>
      (\<exists>app'. PersistentPreRunE h viper forceLocal ks1 ks2 tr = (Return (Inr app'), tr') \<and>
         Services app' = Services app \<and>
         vertices (Dag app') = set ks1 \<and>
         (range_keys (Services app) ks1 \<longrightarrow> vertices (Dag app') = dom (Services app)))) \<and>
   (fst (PersistentPreRunE h viper forceLocal ks1 ks2 tr) = Return (Inl err) \<longrightarrow>
      user_Current h = Inl err \<or> (\<exists>p. LoadConfig h p = Inl err) \<or>
      (\<exists>dir t. fst (LoadProject h dir t) = Inl err) \<or>
      (\<exists>project conf t. fst (BuildDirect h project conf t) = Inl err)) \<and>
   snd (PersistentPreRunE h viper forceLocal ks1 ks2 tr) =
     snd (load_application h viper forceLocal tr)"
proof (intro conjI impI)
  assume l: "load_application h viper forceLocal tr = (Return (Inr app), tr')"
  let ?app = "app\<lparr>Network := \<lparr>Type = network_type viper, Uplink = network_uplink viper\<rparr>,
              Remote := remote_name viper,
              Dag := build_Dag (Services app) ks1 ks2\<rparr>"
  have "PersistentPreRunE h viper forceLocal ks1 ks2 tr = (Return (Inr ?app), tr')"
    by (rule PersistentPreRunE_loaded [OF l])
  moreover have "Services ?app = Services app"
    by simp
  moreover have "vertices (Dag ?app) = set ks1"
    by (simp add: build_Dag_vertices)
  moreover have "range_keys (Services app) ks1 \<longrightarrow> vertices (Dag ?app) = dom (Services app)"
    by (simp add: build_Dag_vertices range_keys_def)
  ultimately show "\<exists>app'. PersistentPreRunE h viper forceLocal ks1 ks2 tr = (Return (Inr app'), tr') \<and>
         Services app' = Services app \<and>
         vertices (Dag app') = set ks1 \<and>
         (range_keys (Services app) ks1 \<longrightarrow> vertices (Dag app') = dom (Services app))"
    by blast
next
  assume "fst (PersistentPreRunE h viper forceLocal ks1 ks2 tr) = Return (Inl err)"
  then show "user_Current h = Inl err \<or> (\<exists>p. LoadConfig h p = Inl err) \<or>
      (\<exists>dir t. fst (LoadProject h dir t) = Inl err) \<or>
      (\<exists>project conf t. fst (BuildDirect h project conf t) = Inl err)"
    by (intro load_application_error PersistentPreRunE_error)
next
  show "snd (PersistentPreRunE h viper forceLocal ks1 ks2 tr) =
     snd (load_application h viper forceLocal tr)"
    by (rule PersistentPreRunE_trace)
qed

theorem cycle_does_not_fail_the_build_witness:
  "(\<exists>app'. PersistentPreRunE (host_of services_cycle) settings0 False
              [''A'', ''B''] [''B'', ''A''] [] = (Return (Inr app'), []) \<and>
           Services app' = services_cycle \<and>
           vertices (Dag app') = {''A'', ''B''}) \<and>
   snd (PersistentPreRunE (host_of services_cycle) settings0 False
          [''A'', ''B''] [''B'', ''A''] []) = []"
proof -
  note t = cycle_does_not_fail_the_build
    [of "host_of services_cycle" settings0 False "[]" "app_of services_cycle []" "[]"
        "[''A'', ''B'']" "[''B'', ''A'']"]
  have s: "Services (app_of services_cycle []) = services_cycle"
    by (simp add: app_of_def)
  from t [THEN conjunct1, THEN mp, OF load_application_host_of]
  obtain app' where
    "PersistentPreRunE (host_of services_cycle) settings0 False
       [''A'', ''B''] [''B'', ''A''] [] = (Return (Inr app'), [])"
    "Services app' = services_cycle" "vertices (Dag app') = {''A'', ''B''}"
    using s by auto
  moreover have "snd (PersistentPreRunE (host_of services_cycle) settings0 False
          [''A'', ''B''] [''B'', ''A''] []) = []"
    using t [THEN conjunct2, THEN conjunct2] by (simp add: load_application_host_of)
  ultimately show ?thesis by blast
qed

text \<open>
  C3, as stated, fails: service \<^verbatim>\<open>x\<close> depends on the missing service \<^verbatim>\<open>ghost\<close> and the
  hook returns nil, not an error; the graph it stores is the single vertex \<^verbatim>\<open>x\<close>.
\<close>

theorem PersistentPreRunE_unknown_dependency_counterexample:
  "PersistentPreRunE (host_of services_ghost) settings0 False [''x''] [''x''] [] =
   (Return (Inr \<lparr>Services = services_ghost,
                ComposeProject = \<lparr>Networks = []\<rparr>,
                Network = \<lparr>Type = ''bridge'', Uplink = []\<rparr>,
                Remote = [],
                Dag = \<lparr>traits = root_traits, vertices = {''x''}, edges = {}\<rparr>\<rparr>), [])"
  by (simp add: PersistentPreRunE_loaded [OF load_application_host_of])
    (simp add: app_of_def settings0_def build_Dag_ghost)

text \<open>
  C3, amended. A dependency on a name that is not in the service set does not fail the
  build. \<^verbatim>\<open>AddEdge\<close> returns the error \<^verbatim>\<open>target vertex <name>: vertex not found\<close>, which
  names the missing service, and leaves the graph as it was; the code drops that error,
  and the hook returns nil with a graph that has no vertex and no edge for the missing
  name. The graph build makes no call to the control plane: the calls made when the hook
  ends are those made when \<^verbatim>\<open>BuildDirect\<close> returned.
\<close>

theorem unknown_dependency_is_dropped:
  assumes "load_application h viper forceLocal tr = (Return (Inr app), tr')"
    and "range_keys (Services app) ks1"
    and "s \<in> dom (Services app)"
    and "missing \<in> set (DependsOn_of (Services app) s)"
    and "missing \<notin> dom (Services app)"
  shows "\<exists>app'. PersistentPreRunE h viper forceLocal ks1 ks2 tr = (Return (Inr app'), tr') \<and>
    missing \<notin> vertices (Dag app') \<and>
    (s, missing) \<notin> edges (Dag app') \<and>
    (\<forall>v. (v, missing) \<notin> edges (Dag app') \<and> (missing, v) \<notin> edges (Dag app')) \<and>
    AddEdge (fold (\<lambda>v g. snd (AddVertex g v)) ks1 (graph_New [Directed, Acyclic])) s missing =
      (Some (Wrapped (''target vertex '' @ missing) ErrVertexNotFound),
       fold (\<lambda>v g. snd (AddVertex g v)) ks1 (graph_New [Directed, Acyclic])) \<and>
    Error (Wrapped (''target vertex '' @ missing) ErrVertexNotFound) =
      ''target vertex '' @ missing @ '': vertex not found''"
proof -
  let ?app = "app\<lparr>Network := \<lparr>Type = network_type viper, Uplink = network_uplink viper\<rparr>,
              Remote := remote_name viper,
              Dag := build_Dag (Services app) ks1 ks2\<rparr>"
  have k: "set ks1 = dom (Services app)"
    using assms(2) by (simp add: range_keys_def)
  have r: "PersistentPreRunE h viper forceLocal ks1 ks2 tr = (Return (Inr ?app), tr')"
    by (rule PersistentPreRunE_loaded [OF assms(1)])
  have v: "missing \<notin> vertices (Dag ?app)"
    using assms(5) by (simp add: build_Dag_vertices k)
  have e: "\<forall>v. (v, missing) \<notin> edges (Dag ?app) \<and> (missing, v) \<notin> edges (Dag ?app)"
    using assms(5) by (simp add: build_Dag_edges k)
  have a: "AddEdge (fold (\<lambda>v g. snd (AddVertex g v)) ks1 (graph_New [Directed, Acyclic])) s missing =
      (Some (Wrapped (''target vertex '' @ missing) ErrVertexNotFound),
       fold (\<lambda>v g. snd (AddVertex g v)) ks1 (graph_New [Directed, Acyclic]))"
    using assms(3,5) by (intro AddEdge_unknown_target) (simp_all add: k)
  have m: "Error (Wrapped (''target vertex '' @ missing) ErrVertexNotFound) =
      ''target vertex '' @ missing @ '': vertex not found''"
    by simp
  show ?thesis
    using r v e a m by blast
qed

theorem unknown_dependency_is_dropped_witness:
  "(\<exists>app'. PersistentPreRunE (host_of services_ghost) settings0 False [''x''] [''x''] [] =
             (Return (Inr app'), []) \<and>
           ''ghost'' \<notin> vertices (Dag app') \<and>
           (''x'', ''ghost'') \<notin> edges (Dag app')) \<and>
   fst (AddEdge (fold (\<lambda>v g. snd (AddVertex g v)) [''x''] (graph_New [Directed, Acyclic]))
          ''x'' ''ghost'') = Some (Wrapped ''target vertex ghost'' ErrVertexNotFound) \<and>
   Error (Wrapped ''target vertex ghost'' ErrVertexNotFound) =
     ''target vertex ghost: vertex not found''"
proof -
  let ?app = "app_of services_ghost []"
  have s: "Services ?app = services_ghost"
    by (simp add: app_of_def)
  have 2: "range_keys (Services ?app) [''x'']"
    by (simp add: s range_keys_ghost)
  have 3: "''x'' \<in> dom (Services ?app)"
    by (simp only: s) (simp add: services_ghost_def)
  have 4: "''ghost'' \<in> set (DependsOn_of (Services ?app) ''x'')"
    by (simp only: s) (simp add: services_ghost_def DependsOn_of_def)
  have 5: "''ghost'' \<notin> dom (Services ?app)"
    by (simp only: s) (simp add: services_ghost_def)
  from unknown_dependency_is_dropped
    [OF load_application_host_of [of services_ghost "[]"] 2 3 4 5, of "[''x'']"]
  obtain app' where
    "PersistentPreRunE (host_of services_ghost) settings0 False [''x''] [''x''] [] =
       (Return (Inr app'), [])"
    "''ghost'' \<notin> vertices (Dag app')" "(''x'', ''ghost'') \<notin> edges (Dag app')"
    "AddEdge (fold (\<lambda>v g. snd (AddVertex g v)) [''x''] (graph_New [Directed, Acyclic]))
       ''x'' ''ghost'' =
     (Some (Wrapped (''target vertex '' @ ''ghost'') ErrVertexNotFound),
      fold (\<lambda>v g. snd (AddVertex g v)) [''x''] (graph_New [Directed, Acyclic]))"
    "Error (Wrapped (''target vertex '' @ ''ghost'') ErrVertexNotFound) =
      ''target vertex '' @ ''ghost'' @ '': vertex not found''"
    by blast
  then show ?thesis
    by (intro conjI exI [of _ app']) simp_all
qed

end
